theory Spec2Isabelle
  imports Main "HOL-Library.Word" "HOL-Library.Signed_Division"
begin

section \<open>Outcomes of a call\<close>

text \<open>
  A Go call either returns, returns an error value to its caller, or panics.
  A panic is either raised by the Go runtime (an unchecked slice access, a
  negative length given to \<open>make\<close>), written out in the source as
  \<open>panic("...")\<close>, or raised by the pairing library on its checked elements.
\<close>

datatype panic =
    RuntimeIndexOutOfRange
  | RuntimeMakeSliceLen
  | PanicMessage string
  | PbcIncompatible
  | PbcBadPairList

datatype error = ErrWrongNumberOfRules

datatype 'a outcome = Returns 'a | Fails error | Panics panic

fun is_Fails :: "'a outcome \<Rightarrow> bool" where
  "is_Fails (Fails e) = True"
| "is_Fails (Returns x) = False"
| "is_Fails (Panics p) = False"

fun is_Returns :: "'a outcome \<Rightarrow> bool" where
  "is_Returns (Returns x) = True"
| "is_Returns (Fails e) = False"
| "is_Returns (Panics p) = False"

section \<open>The pairing library\<close>

text \<open>
  The package computes in three groups and a scalar ring that the library
  \<open>github.com/Nik-U/pbc\<close> provides. The library is a parameter of the
  development: a record of the operations the package calls, over four
  arbitrary carrier types. \<open>zr_mul\<close> is \<open>MulZn\<close> on scalars, \<open>g1_pow\<close> and
  \<open>g2_pow\<close> are \<open>PowZn\<close>, \<open>g1_mul\<close>, \<open>g2_mul\<close> and \<open>gt_mul\<close> are \<open>Mul\<close>,
  \<open>g1_hash\<close> is \<open>SetFromStringHash\<close> with SHA-256, \<open>pair\<close> is \<open>Pair\<close>.
\<close>

record ('zr, 'g1, 'g2, 'gt) Pairing =
  zr_one :: 'zr
  zr_mul :: "'zr \<Rightarrow> 'zr \<Rightarrow> 'zr"
  g1_mul :: "'g1 \<Rightarrow> 'g1 \<Rightarrow> 'g1"
  g1_pow :: "'g1 \<Rightarrow> 'zr \<Rightarrow> 'g1"
  g1_hash :: "string \<Rightarrow> 'g1"
  g2_one :: 'g2
  g2_mul :: "'g2 \<Rightarrow> 'g2 \<Rightarrow> 'g2"
  g2_pow :: "'g2 \<Rightarrow> 'zr \<Rightarrow> 'g2"
  gt_one :: 'gt
  gt_mul :: "'gt \<Rightarrow> 'gt \<Rightarrow> 'gt"
  pair :: "'g1 \<Rightarrow> 'g2 \<Rightarrow> 'gt"

text \<open>
  \<open>F\<close> takes and returns an element of either source group; the library
  tags every element with its group and \<open>PowZn\<close> panics when the base is
  not of the group of the receiver.
\<close>

datatype ('g1, 'g2) Element = G1 'g1 | G2 'g2

fun PowZn_G1 :: "('zr, 'g1, 'g2, 'gt) Pairing \<Rightarrow> ('g1, 'g2) Element \<Rightarrow> 'zr
    \<Rightarrow> ('g1, 'g2) Element outcome" where
  "PowZn_G1 pc (G1 a) k = Returns (G1 (g1_pow pc a k))"
| "PowZn_G1 pc (G2 a) k = Panics PbcIncompatible"

fun PowZn_G2 :: "('zr, 'g1, 'g2, 'gt) Pairing \<Rightarrow> ('g1, 'g2) Element \<Rightarrow> 'zr
    \<Rightarrow> ('g1, 'g2) Element outcome" where
  "PowZn_G2 pc (G2 a) k = Returns (G2 (g2_pow pc a k))"
| "PowZn_G2 pc (G1 a) k = Panics PbcIncompatible"

text \<open>
  \<open>ProdPairSlice\<close>: the product of the pairings of two slices, taken
  position by position; the library panics when the lengths differ.
\<close>

definition ProdPairSlice :: "('zr, 'g1, 'g2, 'gt) Pairing \<Rightarrow> 'g1 list \<Rightarrow> 'g2 list
    \<Rightarrow> 'gt outcome" where
  "ProdPairSlice pc xs ys =
     (if length xs \<noteq> length ys then Panics PbcBadPairList
      else Returns (foldl (\<lambda>acc (x, y). gt_mul pc acc (pair pc x y)) (gt_one pc) (zip xs ys)))"

text \<open>
  \<open>Rand\<close> on a scalar draws from the library's random source. The source is
  an explicit tape of scalars: a draw takes the head and leaves the rest.
\<close>

type_synonym 'zr rng = "nat \<Rightarrow> 'zr"

definition Rand :: "'zr rng \<Rightarrow> 'zr \<times> 'zr rng" where
  "Rand rng = (rng 0, \<lambda>k. rng (Suc k))"

section \<open>System parameters and the pseudorandom function\<close>

type_synonym int32 = "32 word"

record ('zr, 'g1, 'g2, 'gt) SystemParameters =
  g1 :: 'g1
  g2 :: 'g2
  pairing :: "('zr, 'g1, 'g2, 'gt) Pairing"

text \<open>
  The loop of \<open>F\<close>: \<open>x\<close> is the signed 32-bit input shifted right \<open>i\<close>
  times, \<open>br\<close> the accumulated scalar. \<open>x > 0\<close> and \<open>x % 2\<close> are signed,
  \<open>x >> 1\<close> is the arithmetic shift, \<open>beta[i]\<close> panics out of range.
\<close>

function F_loop :: "('zr, 'g1, 'g2, 'gt) Pairing \<Rightarrow> 'zr list \<Rightarrow> int32 \<Rightarrow> nat \<Rightarrow> 'zr
    \<Rightarrow> 'zr outcome" where
  "F_loop pc beta x i br =
     (if 0 <s x then
        (if sint x smod 2 = 1 then
           (if i < length beta
            then F_loop pc beta (signed_drop_bit 1 x) (Suc i) (zr_mul pc br (beta ! i))
            else Panics RuntimeIndexOutOfRange)
         else F_loop pc beta (signed_drop_bit 1 x) (Suc i) br)
      else Returns br)"
  by pat_completeness auto
termination
proof (relation "measure (\<lambda>(pc, beta, x, i, br). nat (sint x))")
  show "wf (measure (\<lambda>(pc :: ('zr, 'g1, 'g2, 'gt) Pairing, beta :: 'zr list, x :: int32,
      i :: nat, br :: 'zr). nat (sint x)))"
    by simp
next
  fix pc :: "('zr, 'g1, 'g2, 'gt) Pairing" and beta :: "'zr list" and x :: int32
    and i :: nat and br :: 'zr
  assume "0 <s x"
  then have "0 < sint x" by (simp add: word_sless_alt)
  then have "sint x div 2 < sint x" by simp
  then show "((pc, beta, signed_drop_bit 1 x, Suc i, zr_mul pc br (beta ! i)),
      (pc, beta, x, i, br)) \<in> measure (\<lambda>(pc, beta, x, i, br). nat (sint x))"
    using \<open>0 < sint x\<close> by (simp add: sint_signed_drop_bit_eq drop_bit_eq_div)
  show "((pc, beta, signed_drop_bit 1 x, Suc i, br),
      (pc, beta, x, i, br)) \<in> measure (\<lambda>(pc, beta, x, i, br). nat (sint x))"
    using \<open>0 < sint x\<close> \<open>sint x div 2 < sint x\<close>
    by (simp add: sint_signed_drop_bit_eq drop_bit_eq_div)
qed

declare F_loop.simps [simp del]

definition F :: "('zr, 'g1, 'g2, 'gt) SystemParameters \<Rightarrow> int \<Rightarrow> ('g1, 'g2) Element
    \<Rightarrow> 'zr list \<Rightarrow> 'zr \<Rightarrow> int32 \<Rightarrow> ('g1, 'g2) Element outcome" where
  "F sp grp base beta aux input =
     (case F_loop (pairing sp) beta input 0 (zr_one (pairing sp)) of
        Panics p \<Rightarrow> Panics p
      | Fails e \<Rightarrow> Fails e
      | Returns br \<Rightarrow>
          (let br' = zr_mul (pairing sp) br aux
           in if grp = 1 then PowZn_G1 (pairing sp) base br'
              else if grp = 2 then PowZn_G2 (pairing sp) base br'
              else Panics (PanicMessage ''Group should be either 1 or 2.'')))"

text \<open>\<open>NewSystemParametersFromFile\<close> is a stub: its body is \<open>panic("Unimplemented!")\<close>.\<close>

definition NewSystemParametersFromFile :: "string \<Rightarrow> ('zr, 'g1, 'g2, 'gt) SystemParameters outcome" where
  "NewSystemParametersFromFile filename = Panics (PanicMessage ''Unimplemented!'')"

section \<open>Agents and ciphertexts\<close>

record 'zr SetupPart =
  alpha :: 'zr
  beta :: "'zr list"
  gamma :: 'zr

record ('zr, 'g1, 'g2, 'gt) SetupKey =
  keys :: "'zr SetupPart list"
  sp :: "('zr, 'g1, 'g2, 'gt) SystemParameters"

record ('zr, 'g1, 'g2, 'gt) Agent =
  index :: nat
  g1alpha :: 'g1
  beta :: "'zr list"
  gamma :: 'zr
  sp :: "('zr, 'g1, 'g2, 'gt) SystemParameters"

record 'g1 Ciphertext =
  index :: nat
  part1 :: 'g1
  part2 :: 'g1

definition NewCiphertext :: "('zr, 'g1, 'g2, 'gt) Agent \<Rightarrow> string \<Rightarrow> int32 \<Rightarrow> 'zr rng
    \<Rightarrow> 'g1 Ciphertext outcome \<times> 'zr rng" where
  "NewCiphertext a identifier plaintext rng =
     (let pc = pairing (Agent.sp a);
          hID = g1_hash pc identifier;
          (r, rng') = Rand rng;
          ct1 = g1_pow pc (g1 (Agent.sp a)) r
      in case F (Agent.sp a) 1 (G1 (g1alpha a)) (Agent.beta a) r plaintext of
           Returns (G1 f) \<Rightarrow>
             (Returns \<lparr>Ciphertext.index = Agent.index a, part1 = ct1,
                part2 = g1_mul pc f (g1_pow pc hID (Agent.gamma a))\<rparr>, rng')
         | Returns (G2 f) \<Rightarrow> (Panics PbcIncompatible, rng')
         | Fails e \<Rightarrow> (Fails e, rng')
         | Panics p \<Rightarrow> (Panics p, rng'))"

section \<open>The rule generator and its tokens\<close>

record ('zr, 'g2) AgentInfo =
  g2alpha :: 'g2
  beta :: "'zr list"
  g2gamma :: 'g2

record ('zr, 'g1, 'g2, 'gt) RuleGenerator =
  agents :: "('zr, 'g2) AgentInfo list"
  sp :: "('zr, 'g1, 'g2, 'gt) SystemParameters"

record 'g2 RuleToken =
  indices :: "nat list"
  g2u :: "'g2 list"
  f2u :: "'g2 list"
  product :: 'g2

text \<open>
  The loop of \<open>NewToken\<close> over \<open>rules\<close>: \<open>i\<close> is the position of the head of
  the remaining rules and \<open>r\<close> the token built so far. A non-negative rule
  value draws \<open>u\<close>, then reads \<open>rg.agents[i]\<close>, which panics out of range.
\<close>

fun NewToken_loop :: "('zr, 'g1, 'g2, 'gt) RuleGenerator \<Rightarrow> int32 list \<Rightarrow> nat
    \<Rightarrow> 'g2 RuleToken \<Rightarrow> 'zr rng \<Rightarrow> 'g2 RuleToken outcome \<times> 'zr rng" where
  "NewToken_loop rg [] i r rng = (Returns r, rng)"
| "NewToken_loop rg (v # vs) i r rng =
     (if 0 \<le>s v then
        (let pc = pairing (RuleGenerator.sp rg);
             (u, rng') = Rand rng
         in if i < length (agents rg) then
              (case F (RuleGenerator.sp rg) 2 (G2 (g2alpha (agents rg ! i)))
                      (AgentInfo.beta (agents rg ! i)) u v of
                 Returns (G2 f) \<Rightarrow>
                   NewToken_loop rg vs (Suc i)
                     \<lparr>indices = indices r @ [i],
                      g2u = g2u r @ [g2_pow pc (g2 (RuleGenerator.sp rg)) u],
                      f2u = f2u r @ [f],
                      product = g2_mul pc (product r) (g2_pow pc (g2gamma (agents rg ! i)) u)\<rparr>
                     rng'
               | Returns (G1 f) \<Rightarrow> (Panics PbcIncompatible, rng')
               | Fails e \<Rightarrow> (Fails e, rng')
               | Panics p \<Rightarrow> (Panics p, rng'))
            else (Panics RuntimeIndexOutOfRange, rng'))
      else NewToken_loop rg vs (Suc i) r rng)"

definition NewToken :: "('zr, 'g1, 'g2, 'gt) RuleGenerator \<Rightarrow> int32 list \<Rightarrow> 'zr rng
    \<Rightarrow> 'g2 RuleToken outcome \<times> 'zr rng" where
  "NewToken rg rules rng =
     (if length rules < length (agents rg) then (Fails ErrWrongNumberOfRules, rng)
      else NewToken_loop rg rules 0
             \<lparr>indices = [], g2u = [], f2u = [],
              product = g2_one (pairing (RuleGenerator.sp rg))\<rparr> rng)"

section \<open>Key generation\<close>

definition NewSetupKey :: "('zr, 'g1, 'g2, 'gt) SystemParameters \<Rightarrow> ('zr, 'g1, 'g2, 'gt) SetupKey" where
  "NewSetupKey p = \<lparr>keys = [], sp = p\<rparr>"

text \<open>The inner loop of \<open>GenerateKeys\<close>: \<open>b\<close> scalars drawn in order.\<close>

fun draw_beta :: "nat \<Rightarrow> 'zr rng \<Rightarrow> 'zr list \<times> 'zr rng" where
  "draw_beta 0 rng = ([], rng)"
| "draw_beta (Suc j) rng =
     (let (x, rng') = Rand rng; (xs, rng'') = draw_beta j rng' in (x # xs, rng''))"

text \<open>
  The outer loop: \<open>i\<close> is the index of the next agent, \<open>k\<close> the number of
  agents still to make, \<open>infos\<close> and \<open>ags\<close> the entries \<open>0..i-1\<close> of the two
  slices. \<open>make([]*pbc.Element, messageSpaceBitSize)\<close> panics on a negative
  size, after \<open>alpha\<close> is drawn.
\<close>

fun GenerateKeys_loop :: "('zr, 'g1, 'g2, 'gt) SetupKey \<Rightarrow> int \<Rightarrow> nat \<Rightarrow> nat
    \<Rightarrow> ('zr, 'g2) AgentInfo list \<Rightarrow> ('zr, 'g1, 'g2, 'gt) Agent list \<Rightarrow> 'zr rng
    \<Rightarrow> (('zr, 'g2) AgentInfo list \<times> ('zr, 'g1, 'g2, 'gt) Agent list) outcome \<times> 'zr rng" where
  "GenerateKeys_loop sk messageSpaceBitSize i 0 infos ags rng = (Returns (infos, ags), rng)"
| "GenerateKeys_loop sk messageSpaceBitSize i (Suc k) infos ags rng =
     (let p = SetupKey.sp sk; pc = pairing p;
          (al, rng1) = Rand rng
      in if messageSpaceBitSize < 0 then (Panics RuntimeMakeSliceLen, rng1)
         else
           (let (be, rng2) = draw_beta (nat messageSpaceBitSize) rng1;
                (ga, rng3) = Rand rng2
            in GenerateKeys_loop sk messageSpaceBitSize (Suc i) k
                 (infos @ [\<lparr>g2alpha = g2_pow pc (g2 p) al, beta = be,
                             g2gamma = g2_pow pc (g2 p) ga\<rparr>])
                 (ags @ [\<lparr>Agent.index = i, g1alpha = g1_pow pc (g1 p) al, beta = be,
                           gamma = ga, sp = p\<rparr>])
                 rng3))"

definition GenerateKeys :: "('zr, 'g1, 'g2, 'gt) SetupKey \<Rightarrow> int \<Rightarrow> int \<Rightarrow> 'zr rng
    \<Rightarrow> (('zr, 'g1, 'g2, 'gt) RuleGenerator \<times> ('zr, 'g1, 'g2, 'gt) Agent list) outcome \<times> 'zr rng" where
  "GenerateKeys sk n messageSpaceBitSize rng =
     (if n < 0 then (Panics RuntimeMakeSliceLen, rng)
      else (case GenerateKeys_loop sk messageSpaceBitSize 0 (nat n) [] [] rng of
              (Returns (infos, ags), rng') \<Rightarrow>
                (Returns (\<lparr>agents = infos, sp = SetupKey.sp sk\<rparr>, ags), rng')
            | (Fails e, rng') \<Rightarrow> (Fails e, rng')
            | (Panics p, rng') \<Rightarrow> (Panics p, rng')))"

section \<open>The alarm system\<close>

record ('zr, 'g1, 'g2, 'gt) AlarmSystem =
  sp :: "('zr, 'g1, 'g2, 'gt) SystemParameters"
  rt :: "'g2 RuleToken"
  hID :: 'g1

definition NewAlarmSystem :: "('zr, 'g1, 'g2, 'gt) SystemParameters \<Rightarrow> 'g2 RuleToken \<Rightarrow> string
    \<Rightarrow> ('zr, 'g1, 'g2, 'gt) AlarmSystem" where
  "NewAlarmSystem p t identifier =
     \<lparr>sp = p, rt = t, hID = g1_hash (pairing p) identifier\<rparr>"

text \<open>
  The loop of \<open>Test\<close> that fills \<open>parts1\<close> and \<open>parts2\<close>: \<open>ct[v]\<close> panics
  when \<open>v\<close> is not an index of \<open>ct\<close>. The pointers of the source are values
  here: there is no nil ciphertext, token or agent.
\<close>

fun Test_parts :: "nat list \<Rightarrow> 'g1 Ciphertext list \<Rightarrow> ('g1 list \<times> 'g1 list) outcome" where
  "Test_parts [] ct = Returns ([], [])"
| "Test_parts (v # vs) ct =
     (if v < length ct then
        (case Test_parts vs ct of
           Returns (parts1, parts2) \<Rightarrow> Returns (part1 (ct ! v) # parts1, part2 (ct ! v) # parts2)
         | Fails e \<Rightarrow> Fails e
         | Panics p \<Rightarrow> Panics p)
      else Panics RuntimeIndexOutOfRange)"

definition Test :: "('zr, 'g1, 'g2, 'gt) AlarmSystem \<Rightarrow> 'g1 Ciphertext list \<Rightarrow> bool outcome" where
  "Test al ct =
     (let pc = pairing (AlarmSystem.sp al) in
      case Test_parts (indices (rt al)) ct of
        Fails e \<Rightarrow> Fails e
      | Panics p \<Rightarrow> Panics p
      | Returns (parts1, parts2) \<Rightarrow>
          (case ProdPairSlice pc parts1 (f2u (rt al)) of
             Fails e \<Rightarrow> Fails e
           | Panics p \<Rightarrow> Panics p
           | Returns q1 \<Rightarrow>
               (let p1 = gt_mul pc q1 (pair pc (hID al) (product (rt al))) in
                case ProdPairSlice pc parts2 (g2u (rt al)) of
                  Fails e \<Rightarrow> Fails e
                | Panics p \<Rightarrow> Panics p
                | Returns p2 \<Rightarrow> Returns (p1 = p2))))"

section \<open>The specification's formulas\<close>

text \<open>
  The scalar of \<open>F\<close> in closed form. \<open>acc_bits pc bs x i br js\<close> scans the
  bit positions \<open>js\<close> of \<open>x\<close> in order and multiplies \<open>bs ! (i + j)\<close> into
  \<open>br\<close> for every set bit \<open>j\<close>. \<open>spec_F_scalar\<close> is the scalar as the
  specification words it: start from the identity, scan the 32 bit positions
  of the input from the least significant one upward, multiply once by
  \<open>aux\<close> at the end.
\<close>

definition acc_bits :: "('zr, 'g1, 'g2, 'gt) Pairing \<Rightarrow> 'zr list \<Rightarrow> int32 \<Rightarrow> nat \<Rightarrow> 'zr
    \<Rightarrow> nat list \<Rightarrow> 'zr" where
  "acc_bits pc bs x i br js =
     foldl (\<lambda>acc j. if bit x j then zr_mul pc acc (bs ! (i + j)) else acc) br js"

definition spec_F_scalar :: "('zr, 'g1, 'g2, 'gt) Pairing \<Rightarrow> 'zr list \<Rightarrow> 'zr \<Rightarrow> int32 \<Rightarrow> 'zr" where
  "spec_F_scalar pc bs aux input =
     zr_mul pc (acc_bits pc bs input 0 (zr_one pc) [0..<32]) aux"

text \<open>The product of the pairings of two lists, position by position.\<close>

definition prod_pairings :: "('zr, 'g1, 'g2, 'gt) Pairing \<Rightarrow> 'g1 list \<Rightarrow> 'g2 list \<Rightarrow> 'gt" where
  "prod_pairings pc xs ys =
     foldl (\<lambda>acc (x, y). gt_mul pc acc (pair pc x y)) (gt_one pc) (zip xs ys)"

text \<open>
  The comparison of \<open>Test\<close> as the specification words it: \<open>p1\<close> pairs the
  second parts with the \<open>g2u\<close> entries and carries the pairing of the
  identifier hash with the product, \<open>p2\<close> pairs the first parts with the
  \<open>f2u\<close> entries.
\<close>

definition spec_Test :: "('zr, 'g1, 'g2, 'gt) AlarmSystem \<Rightarrow> 'g1 Ciphertext list \<Rightarrow> bool" where
  "spec_Test al ct =
     (let pc = pairing (AlarmSystem.sp al);
          p1 = gt_mul pc (prod_pairings pc (map (\<lambda>i. part2 (ct ! i)) (indices (rt al)))
                            (g2u (rt al)))
                 (pair pc (hID al) (product (rt al)));
          p2 = prod_pairings pc (map (\<lambda>i. part1 (ct ! i)) (indices (rt al))) (f2u (rt al))
      in p1 = p2)"

text \<open>
  A token whose three lists run in parallel, as \<open>NewToken\<close> builds them (the
  fields are private to the package, \<open>NewToken\<close> is their only writer).
\<close>

definition parallel_token :: "'g2 RuleToken \<Rightarrow> bool" where
  "parallel_token t \<longleftrightarrow> length (g2u t) = length (indices t) \<and> length (f2u t) = length (indices t)"



section \<open>Conditions and invariants of the loops\<close>

text \<open>
  The positions of the non-negative values of \<open>vs\<close>, counted from \<open>i\<close>, and
  the condition under which the loop of \<open>NewToken\<close> reads in range: every
  non-negative value stands at the position of an agent and has its set bits
  below the length of that agent's scalar vector.
\<close>

definition included :: "nat \<Rightarrow> int32 list \<Rightarrow> nat list" where
  "included i vs = map (\<lambda>k. i + k) (filter (\<lambda>k. 0 \<le>s vs ! k) [0..<length vs])"

definition rules_fit :: "('zr, 'g1, 'g2, 'gt) RuleGenerator \<Rightarrow> nat \<Rightarrow> int32 list \<Rightarrow> bool" where
  "rules_fit rg i vs \<longleftrightarrow>
     (\<forall>k<length vs. 0 \<le>s vs ! k \<longrightarrow>
        i + k < length (agents rg) \<and>
        (\<forall>j. bit (vs ! k) j \<longrightarrow> j < length (AgentInfo.beta (agents rg ! (i + k)))))"




section \<open>A concrete pairing\<close>

text \<open>
  The integers as all three groups, written additively, and as the scalars:
  exponentiation is multiplication by the scalar and the pairing is the
  product. The generators are 1 and the random tape counts up from 2.
\<close>

definition toy_pairing :: "(int, int, int, int) Pairing" where
  "toy_pairing = \<lparr>zr_one = 1, zr_mul = (\<lambda>x y. x * y),
      g1_mul = (\<lambda>a b. a + b), g1_pow = (\<lambda>a x. a * x), g1_hash = (\<lambda>s. int (length s) + 1),
      g2_one = 0, g2_mul = (\<lambda>a b. a + b), g2_pow = (\<lambda>a x. a * x),
      gt_one = 0, gt_mul = (\<lambda>a b. a + b), pair = (\<lambda>a b. a * b)\<rparr>"

definition toy_sp :: "(int, int, int, int) SystemParameters" where
  "toy_sp = \<lparr>g1 = 1, g2 = 1, pairing = toy_pairing\<rparr>"


text \<open>
  The token and the ciphertext of one agent with every scalar equal to 1, the
  plaintext and rule value 0 and the identifier \<open>X\<close>, and the tape of ones
  that produces them.
\<close>

definition toy_token :: "int RuleToken" where
  "toy_token = \<lparr>indices = [0], g2u = [1], f2u = [1], product = 1\<rparr>"

definition toy_cts :: "int Ciphertext list" where
  "toy_cts = [\<lparr>Ciphertext.index = 0, part1 = 1, part2 = 3\<rparr>]"

definition toy_ones :: "int rng" where
  "toy_ones = (\<lambda>k. 1)"

text \<open>The keys of that agent, as \<open>GenerateKeys\<close> makes them from the tape of ones.\<close>

definition toy_rg :: "(int, int, int, int) RuleGenerator" where
  "toy_rg = \<lparr>agents = [\<lparr>g2alpha = 1, beta = [], g2gamma = 1\<rparr>], sp = toy_sp\<rparr>"

definition toy_agent :: "(int, int, int, int) Agent" where
  "toy_agent = \<lparr>Agent.index = 0, g1alpha = 1, beta = [], gamma = 1, sp = toy_sp\<rparr>"



section \<open>Signed 32-bit inputs\<close>

lemma smod2: "0 < sint (x::int32) \<Longrightarrow> (sint x smod 2 = 1) = bit x 0"
proof -
  assume p: "0 < sint x"
  have "bit x 0 = bit (sint x) 0" by (simp add: bit_sint_iff)
  also have "\<dots> = (sint x mod 2 = 1)" by (simp add: bit_0 odd_iff_mod_2_eq_one)
  finally show ?thesis using p by (simp add: smod_int_alt_def sgn_if)
qed

lemma bit_sdrop: "\<not> bit (x::int32) 31 \<Longrightarrow> bit (signed_drop_bit 1 x) j = bit x (Suc j)"
  by (auto simp add: bit_signed_drop_bit_iff dest: bit_imp_le_length)

lemma bit_sdrop': "\<not> bit (x::int32) 31 \<Longrightarrow> bit (signed_drop_bit (Suc 0) x) j = bit x (Suc j)"
  using bit_sdrop [of x j] by simp

lemma sdrop_nonneg: "\<not> bit (x::int32) 31 \<Longrightarrow> \<not> bit (signed_drop_bit 1 x) 31"
  by (auto simp add: bit_sdrop' dest: bit_imp_le_length)

lemma nonneg_bit31: "(0 \<le>s (x::int32)) = (\<not> bit x 31)"
  using bit_last_iff [of x] by (simp add: word_sle_eq not_less)

lemma pos_iff: "(0 <s (x::int32)) = (\<not> bit x 31 \<and> x \<noteq> 0)"
  using bit_last_iff [of x] 
  by (auto simp add: word_sless_alt not_less order_less_le signed_eq_0_iff)

section \<open>The loop of \<open>F\<close> in closed form\<close>

lemma acc_bits_Nil: "acc_bits pc bs x i br [] = br"
  by (simp add: acc_bits_def)

lemma acc_bits_Cons:
  "acc_bits pc bs x i br (j # js) =
     acc_bits pc bs x i (if bit x j then zr_mul pc br (bs ! (i + j)) else br) js"
  by (simp add: acc_bits_def)

lemma acc_bits_snoc:
  "acc_bits pc bs x i br (js @ [j]) =
     (let a = acc_bits pc bs x i br js in if bit x j then zr_mul pc a (bs ! (i + j)) else a)"
  by (simp add: acc_bits_def Let_def)

lemma acc_bits_zero: "acc_bits pc bs 0 i br js = br"
  by (induction js) (simp_all add: acc_bits_def)

lemma acc_bits_shift:
  "\<not> bit x 31 \<Longrightarrow> acc_bits pc bs x i br (map Suc js) = acc_bits pc bs (signed_drop_bit 1 x) (Suc i) br js"
  by (induction js arbitrary: br) (simp_all add: acc_bits_Nil acc_bits_Cons bit_sdrop')

lemma upt32: "[0..<32] = 0 # map Suc [0..<31]"
  by (simp add: upt_conv_Cons map_Suc_upt del: upt_Suc)

lemma upt32': "[0..<32] = [0..<31] @ [31]"
proof -
  have "[0..<Suc 31] = [0..<31] @ [31]" by (rule upt_Suc_append) simp
  then show ?thesis by simp
qed

lemma acc_bits_step:
  assumes "\<not> bit x 31"
  shows "acc_bits pc bs x i br [0..<32] =
     acc_bits pc bs (signed_drop_bit 1 x) (Suc i) (if bit x 0 then zr_mul pc br (bs ! i) else br) [0..<32]"
proof -
  let ?x' = "signed_drop_bit 1 x"
  let ?b = "if bit x 0 then zr_mul pc br (bs ! i) else br"
  have n31: "\<not> bit ?x' 31" using assms by (rule sdrop_nonneg)
  have "acc_bits pc bs x i br [0..<32] = acc_bits pc bs x i ?b (map Suc [0..<31])"
    by (simp only: upt32 acc_bits_Cons) simp
  also have "\<dots> = acc_bits pc bs ?x' (Suc i) ?b [0..<31]"
    using assms by (rule acc_bits_shift)
  also have "\<dots> = acc_bits pc bs ?x' (Suc i) ?b [0..<32]"
    using n31 by (simp only: upt32' acc_bits_snoc Let_def if_False)
  finally show ?thesis .
qed

lemma F_loop_char:
  "\<not> bit x 31 \<Longrightarrow> F_loop pc bs x i br =
     (if \<forall>j. bit x j \<longrightarrow> i + j < length bs
      then Returns (acc_bits pc bs x i br [0..<32])
      else Panics RuntimeIndexOutOfRange)"
proof (induction pc bs x i br rule: F_loop.induct)
  case (1 pc bs x i br)
  let ?x' = "signed_drop_bit 1 x"
  have n31: "\<not> bit ?x' 31" using "1.prems" by (rule sdrop_nonneg)
  show ?case
  proof (cases "0 <s x")
    case False
    then have "x = 0" using "1.prems" by (simp add: pos_iff)
    then show ?thesis by (subst F_loop.simps) (simp add: acc_bits_zero)
  next
    case pos: True
    then have sp: "0 < sint x" by (simp add: word_sless_alt)
    have cond: "(\<forall>j. bit x j \<longrightarrow> i + j < length bs) =
        ((bit x 0 \<longrightarrow> i < length bs) \<and> (\<forall>j. bit ?x' j \<longrightarrow> Suc i + j < length bs))"
      (is "?L = ?R")
    proof
      assume l: ?L
      show ?R
      proof (intro conjI allI impI)
        assume "bit x 0" with l show "i < length bs" by force
      next
        fix j assume "bit ?x' j"
        then have "bit x (Suc j)" using "1.prems" by (simp add: bit_sdrop')
        with l show "Suc i + j < length bs" by force
      qed
    next
      assume r: ?R
      show ?L
      proof (intro allI impI)
        fix j assume b: "bit x j"
        show "i + j < length bs"
        proof (cases j)
          case 0 with b r show ?thesis by simp
        next
          case (Suc k)
          with b have "bit ?x' k" using "1.prems" by (simp add: bit_sdrop')
          with r Suc show ?thesis by force
        qed
      qed
    qed
    show ?thesis
    proof (cases "bit x 0")
      case b0: True
      show ?thesis
      proof (cases "i < length bs")
        case True
        have "F_loop pc bs x i br = F_loop pc bs ?x' (Suc i) (zr_mul pc br (bs ! i))"
          using pos b0 True sp by (subst F_loop.simps) (simp add: smod2)
        also have "\<dots> = (if \<forall>j. bit ?x' j \<longrightarrow> Suc i + j < length bs
            then Returns (acc_bits pc bs ?x' (Suc i) (zr_mul pc br (bs ! i)) [0..<32])
            else Panics RuntimeIndexOutOfRange)"
          using pos b0 True sp n31 by (intro "1.IH"(1)) (simp_all add: smod2)
        finally show ?thesis
          using b0 True by (simp only: cond acc_bits_step [OF "1.prems"]) simp
      next
        case False
        have "F_loop pc bs x i br = Panics RuntimeIndexOutOfRange"
          using pos b0 False sp by (subst F_loop.simps) (simp add: smod2)
        then show ?thesis using b0 False by (simp only: cond) simp
      qed
    next
      case b0: False
      have "F_loop pc bs x i br = F_loop pc bs ?x' (Suc i) br"
        using pos b0 sp by (subst F_loop.simps) (simp add: smod2)
      also have "\<dots> = (if \<forall>j. bit ?x' j \<longrightarrow> Suc i + j < length bs
          then Returns (acc_bits pc bs ?x' (Suc i) br [0..<32])
          else Panics RuntimeIndexOutOfRange)"
        using pos b0 sp n31 by (intro "1.IH"(2)) (simp_all add: smod2)
      finally show ?thesis
        using b0 by (simp only: cond acc_bits_step [OF "1.prems"]) simp
    qed
  qed
qed


lemma int_bits_below: "0 \<le> (k::int) \<Longrightarrow> (\<forall>j. bit k j \<longrightarrow> j < n) = (k < 2 ^ n)"
proof -
  assume nn: "0 \<le> k"
  have "(k < 2 ^ n) = (take_bit n k = k)" using nn by (simp add: take_bit_int_eq_self_iff)
  also have "\<dots> = (\<forall>j. bit (take_bit n k) j = bit k j)" by (simp add: bit_eq_iff)
  also have "\<dots> = (\<forall>j. bit k j \<longrightarrow> j < n)" by (auto simp add: bit_take_bit_iff)
  finally show ?thesis by simp
qed

lemma word_bits_below: "\<not> bit (x::int32) 31 \<Longrightarrow> (\<forall>j. bit x j \<longrightarrow> j < n) = (sint x < 2 ^ n)"
proof -
  assume n31: "\<not> bit x 31"
  then have nn: "0 \<le> sint x" using bit_last_iff [of x] by simp
  have "\<And>j. bit (sint x) j = bit x j" using n31 by (simp add: bit_sint_iff)
  then show ?thesis using int_bits_below [OF nn, of n] by simp
qed

lemma F_loop_zero_start:
  "0 \<le>s x \<Longrightarrow> \<forall>j. bit x j \<longrightarrow> j < length bs \<Longrightarrow>
   F_loop pc bs x 0 (zr_one pc) = Returns (acc_bits pc bs x 0 (zr_one pc) [0..<32])"
  by (simp add: F_loop_char nonneg_bit31)

text \<open>
  Claim C7. For target group 1 with a base in G1, and target group 2 with a
  base in G2, every scalar vector, every auxiliary scalar and every
  non-negative input whose set bits all lie below the length of the vector,
  \<open>F\<close> returns the base raised to the scalar of the specification: the
  identity, multiplied by the vector's entry at every set bit of the input
  from the least significant bit upward, then multiplied once by the auxiliary
  scalar. The result is tagged with the target group. \<open>F\<close> is a function
  of its arguments, so equal arguments give the same element.
\<close>

theorem F_computes_spec_scalar:
  assumes "0 \<le>s input" and "\<forall>j. bit input j \<longrightarrow> j < length bs"
  shows "F p 1 (G1 a) bs aux input =
           Returns (G1 (g1_pow (pairing p) a (spec_F_scalar (pairing p) bs aux input))) \<and>
         F p 2 (G2 b) bs aux input =
           Returns (G2 (g2_pow (pairing p) b (spec_F_scalar (pairing p) bs aux input)))"
  using F_loop_zero_start [OF assms, of "pairing p"]
  by (simp add: F_def spec_F_scalar_def Let_def)

text \<open>
  Claim C7 over the integers: the input 5 has bits 0 and 2 set, the scalar is
  \<open>1 * 2 * 5 * 3\<close> and the base 4 is raised to it.
\<close>

theorem F_computes_spec_scalar_witness:
  "0 \<le>s (5::int32) \<and> sint (5::int32) < 2 ^ length [2, 3, 5, 7::int] \<and>
   F toy_sp 1 (G1 4) [2, 3, 5, 7] 3 5 = Returns (G1 120) \<and>
   F toy_sp 2 (G2 4) [2, 3, 5, 7] 3 5 = Returns (G2 120)"
proof -
  have h1: "0 \<le>s (5::int32)" by (simp add: word_sle_eq)
  have h2: "\<forall>j. bit (5::int32) j \<longrightarrow> j < length [2, 3, 5, 7::int]"
    using word_bits_below [of 5 "length [2, 3, 5, 7::int]"] by simp
  have v: "spec_F_scalar toy_pairing [2, 3, 5, 7] 3 5 = 30"
    by (simp add: spec_F_scalar_def acc_bits_def toy_pairing_def upt32 upt_rec_numeral
        numeral_eq_Suc bit_Suc bit_0)
  have p: "pairing toy_sp = toy_pairing" by (simp add: toy_sp_def)
  have "F toy_sp 1 (G1 4) [2, 3, 5, 7] 3 5 = Returns (G1 120) \<and>
        F toy_sp 2 (G2 4) [2, 3, 5, 7] 3 5 = Returns (G2 120)"
    using F_computes_spec_scalar [OF h1 h2, of toy_sp 4 3 4]
    by (simp only: p v) (simp add: toy_pairing_def)
  with h1 show ?thesis by simp
qed

text \<open>
  Claim C9. For every file name, \<open>NewSystemParametersFromFile\<close> stops with
  the explicit panic \<open>Unimplemented!\<close> and returns no system parameters.
\<close>

theorem NewSystemParametersFromFile_unimplemented:
  "NewSystemParametersFromFile filename = Panics (PanicMessage ''Unimplemented!'') \<and>
   \<not> is_Returns (NewSystemParametersFromFile filename)"
  by (simp add: NewSystemParametersFromFile_def)

section \<open>\<open>Test\<close>\<close>

lemma Test_parts_valid:
  "\<forall>v\<in>set vs. v < length ct \<Longrightarrow>
   Test_parts vs ct = Returns (map (\<lambda>i. part1 (ct ! i)) vs, map (\<lambda>i. part2 (ct ! i)) vs)"
  by (induction vs) simp_all

lemma Test_parts_invalid:
  "\<exists>v\<in>set vs. \<not> v < length ct \<Longrightarrow> Test_parts vs ct = Panics RuntimeIndexOutOfRange"
proof (induction vs)
  case Nil
  then show ?case by simp
next
  case (Cons v vs)
  show ?case
  proof (cases "v < length ct")
    case False
    then show ?thesis by simp
  next
    case True
    with Cons.prems have "\<exists>w\<in>set vs. \<not> w < length ct" by auto
    then have "Test_parts vs ct = Panics RuntimeIndexOutOfRange" by (rule Cons.IH)
    with True show ?thesis by simp
  qed
qed

lemma ProdPairSlice_same_length:
  "length xs = length ys \<Longrightarrow> ProdPairSlice pc xs ys = Returns (prod_pairings pc xs ys)"
  by (simp add: ProdPairSlice_def prod_pairings_def)

text \<open>
  Claim C1, as amended. For every alarm system whose token has parallel lists
  and every ciphertext collection in which each included index is valid,
  \<open>Test\<close> returns the equality of \<open>p1\<close> and \<open>p2\<close>, where \<open>p1\<close> is the
  product over the included indices of the pairing of the ciphertext's first
  part with the token's \<open>f2u\<close> entry, times the pairing of the identifier
  hash with the token's product, and \<open>p2\<close> is the product over the included
  indices of the pairing of the ciphertext's second part with the token's
  \<open>g2u\<close> entry.
\<close>

theorem Test_computes_formula:
  assumes "parallel_token (rt al)" and "\<forall>v\<in>set (indices (rt al)). v < length ct"
  shows "Test al ct =
    Returns
      (gt_mul (pairing (AlarmSystem.sp al))
         (prod_pairings (pairing (AlarmSystem.sp al))
            (map (\<lambda>i. part1 (ct ! i)) (indices (rt al))) (f2u (rt al)))
         (pair (pairing (AlarmSystem.sp al)) (hID al) (product (rt al)))
       = prod_pairings (pairing (AlarmSystem.sp al))
           (map (\<lambda>i. part2 (ct ! i)) (indices (rt al))) (g2u (rt al)))"
  using assms
  by (simp add: Test_def Test_parts_valid ProdPairSlice_same_length parallel_token_def Let_def)

text \<open>
  Claim C1 as worded pairs the second parts with \<open>g2u\<close> on the side of the
  identifier hash. On the token and the ciphertext that the scheme produces
  for one agent with every scalar equal to 1 and plaintext 0, \<open>Test\<close>
  returns true and the worded comparison is false.
\<close>

theorem Test_spec_formula_counterexample:
  "Test (NewAlarmSystem toy_sp toy_token ''X'') toy_cts = Returns True \<and>
   \<not> spec_Test (NewAlarmSystem toy_sp toy_token ''X'') toy_cts"
  by (simp add: Test_def spec_Test_def NewAlarmSystem_def toy_sp_def toy_token_def toy_cts_def
      toy_pairing_def ProdPairSlice_def prod_pairings_def Let_def)

text \<open>
  The amended claim at that token and ciphertext.
\<close>

theorem Test_computes_formula_witness:
  "parallel_token toy_token \<and> length (indices toy_token) = 1 \<and> length toy_cts = 1 \<and>
   Test (NewAlarmSystem toy_sp toy_token ''X'') toy_cts = Returns (1 * 1 + 2 * 1 = (3 * 1 :: int))"
proof -
  have h1: "parallel_token (rt (NewAlarmSystem toy_sp toy_token ''X''))"
    by (simp add: NewAlarmSystem_def parallel_token_def toy_token_def)
  have h2: "\<forall>v\<in>set (indices (rt (NewAlarmSystem toy_sp toy_token ''X''))). v < length toy_cts"
    by (simp add: NewAlarmSystem_def toy_token_def toy_cts_def)
  show ?thesis
    using Test_computes_formula [OF h1 h2] h1
    by (simp add: NewAlarmSystem_def toy_sp_def toy_token_def toy_cts_def
      toy_pairing_def prod_pairings_def)
qed

text \<open>
  Claim C5, as amended. When an included index of the token is not an index of
  the ciphertext collection, \<open>Test\<close> returns neither a boolean nor an error
  value: the slice access panics in the Go runtime.
\<close>

theorem Test_panics_on_missing_index:
  assumes "\<exists>v\<in>set (indices (rt al)). \<not> v < length ct"
  shows "Test al ct = Panics RuntimeIndexOutOfRange \<and> \<not> is_Fails (Test al ct)"
  using assms by (simp add: Test_def Test_parts_invalid)

text \<open>
  Claim C5 as worded asks for a returned error. On an empty collection the
  outcome of \<open>Test\<close> is a runtime panic, not an error value.
\<close>

theorem Test_error_counterexample:
  "\<not> is_Fails (Test (NewAlarmSystem toy_sp toy_token ''X'') []) \<and>
   \<not> is_Returns (Test (NewAlarmSystem toy_sp toy_token ''X'') []) \<and>
   Test (NewAlarmSystem toy_sp toy_token ''X'') [] = Panics RuntimeIndexOutOfRange"
  by (simp add: Test_def NewAlarmSystem_def toy_token_def)

text \<open>
  The amended claim on a token that includes index 1 and a collection of one
  ciphertext.
\<close>

theorem Test_panics_on_missing_index_witness:
  "\<not> 1 < length toy_cts \<and>
   Test (NewAlarmSystem toy_sp \<lparr>indices = [0, 1], g2u = [1, 1], f2u = [1, 1], product = 2\<rparr> ''X'')
     toy_cts = Panics RuntimeIndexOutOfRange"
proof -
  have h: "\<exists>v\<in>set (indices (rt (NewAlarmSystem toy_sp
      \<lparr>indices = [0, 1], g2u = [1, 1], f2u = [1, 1], product = 2\<rparr> ''X''))). \<not> v < length toy_cts"
    by (simp add: NewAlarmSystem_def toy_cts_def)
  show ?thesis using Test_panics_on_missing_index [OF h] by (simp add: toy_cts_def)
qed

section \<open>\<open>F\<close> on each group\<close>

lemma F_loop_neg: "bit x 31 \<Longrightarrow> F_loop pc bs x i br = Returns br"
  by (subst F_loop.simps) (simp add: pos_iff)


lemma F_G2:
  "F p 2 (G2 a) bs aux v =
     (if bit v 31 then Returns (G2 (g2_pow (pairing p) a (zr_mul (pairing p) (zr_one (pairing p)) aux)))
      else if \<forall>j. bit v j \<longrightarrow> j < length bs
      then Returns (G2 (g2_pow (pairing p) a (spec_F_scalar (pairing p) bs aux v)))
      else Panics RuntimeIndexOutOfRange)"
  by (auto simp add: F_def F_loop_neg F_loop_char spec_F_scalar_def Let_def)

section \<open>The loop of \<open>NewToken\<close>\<close>

lemma included_Nil: "included i [] = []"
  by (simp add: included_def)

lemma included_Cons:
  "included i (v # vs) = (if 0 \<le>s v then [i] else []) @ included (Suc i) vs"
proof -
  have "[0..<length (v # vs)] = 0 # map Suc [0..<length vs]"
    by (simp add: upt_conv_Cons map_Suc_upt del: upt_Suc)
  then show ?thesis
    by (simp add: included_def filter_map comp_def del: upt_Suc)
qed

lemma rules_fit_Nil: "rules_fit rg i []"
  by (simp add: rules_fit_def)

lemma rules_fit_Cons:
  "rules_fit rg i (v # vs) =
     ((0 \<le>s v \<longrightarrow> i < length (agents rg) \<and>
        (\<forall>j. bit v j \<longrightarrow> j < length (AgentInfo.beta (agents rg ! i)))) \<and>
      rules_fit rg (Suc i) vs)"
  (is "?L = (?H \<and> ?T)")
proof
  assume l: ?L
  have ?H using l [unfolded rules_fit_def, rule_format, of 0] by simp
  moreover have ?T
    unfolding rules_fit_def
  proof (intro allI impI)
    fix k assume "k < length vs" "0 \<le>s vs ! k"
    then show "Suc i + k < length (agents rg) \<and>
        (\<forall>j. bit (vs ! k) j \<longrightarrow> j < length (AgentInfo.beta (agents rg ! (Suc i + k))))"
      using l [unfolded rules_fit_def, rule_format, of "Suc k"] by simp
  qed
  ultimately show "?H \<and> ?T" ..
next
  assume r: "?H \<and> ?T"
  show ?L
    unfolding rules_fit_def
  proof (intro allI impI)
    fix k assume k: "k < length (v # vs)" "0 \<le>s (v # vs) ! k"
    show "i + k < length (agents rg) \<and>
        (\<forall>j. bit ((v # vs) ! k) j \<longrightarrow> j < length (AgentInfo.beta (agents rg ! (i + k))))"
    proof (cases k)
      case 0
      with k r show ?thesis by simp
    next
      case (Suc m)
      with k r [THEN conjunct2, unfolded rules_fit_def, rule_format, of m] show ?thesis by simp
    qed
  qed
qed

lemma NewToken_loop_char:
  "if rules_fit rg i vs
   then \<exists>tok rng'. NewToken_loop rg vs i r rng = (Returns tok, rng') \<and>
          indices tok = indices r @ included i vs \<and>
          length (g2u tok) = length (g2u r) + length (included i vs) \<and>
          length (f2u tok) = length (f2u r) + length (included i vs)
   else fst (NewToken_loop rg vs i r rng) = Panics RuntimeIndexOutOfRange"
proof (induction vs arbitrary: i r rng)
  case Nil
  show ?case by (simp add: rules_fit_Nil included_Nil)
next
  case (Cons v vs)
  show ?case
  proof (cases "0 \<le>s v")
    case False
    then show ?thesis
      using Cons.IH [of "Suc i" r rng]
      by (cases "rules_fit rg (Suc i) vs") (simp_all add: rules_fit_Cons included_Cons)
  next
    case nn: True
    then have n31: "\<not> bit v 31" by (simp add: nonneg_bit31)
    show ?thesis
    proof (cases "i < length (agents rg) \<and>
        (\<forall>j. bit v j \<longrightarrow> j < length (AgentInfo.beta (agents rg ! i)))")
      case False
      then show ?thesis
        using nn n31 by (auto simp add: rules_fit_Cons Let_def Rand_def F_G2)
    next
      case ok: True
      let ?pc = "pairing (RuleGenerator.sp rg)"
      let ?f = "g2_pow ?pc (g2alpha (agents rg ! i))
          (spec_F_scalar ?pc (AgentInfo.beta (agents rg ! i)) (rng 0) v)"
      let ?r' = "\<lparr>indices = indices r @ [i],
          g2u = g2u r @ [g2_pow ?pc (g2 (RuleGenerator.sp rg)) (rng 0)],
          f2u = f2u r @ [?f],
          product = g2_mul ?pc (product r) (g2_pow ?pc (g2gamma (agents rg ! i)) (rng 0))\<rparr>"
      have step: "NewToken_loop rg (v # vs) i r rng =
          NewToken_loop rg vs (Suc i) ?r' (\<lambda>k. rng (Suc k))"
        using nn n31 ok by (simp add: Let_def Rand_def F_G2)
      have fit: "rules_fit rg i (v # vs) = rules_fit rg (Suc i) vs"
        using ok by (simp add: rules_fit_Cons)
      have inc: "included i (v # vs) = i # included (Suc i) vs"
        using nn by (simp add: included_Cons)
      show ?thesis
        using Cons.IH [of "Suc i" ?r' "\<lambda>k. rng (Suc k)"]
        by (simp only: step fit inc) (cases "rules_fit rg (Suc i) vs", simp_all)
    qed
  qed
qed

section \<open>The concrete run\<close>

text \<open>
  The keys, the ciphertext and the token of the concrete pairing are what the
  package computes from the tape of ones: one agent, bit width 0, plaintext
  and rule value 0, identifier \<open>X\<close>.
\<close>

lemmas toy_defs = toy_sp_def toy_pairing_def toy_token_def toy_cts_def toy_ones_def
  toy_rg_def toy_agent_def

lemmas eval_defs = Let_def Rand_def F_def F_loop.simps word_sless_alt word_sle_eq
  smod_int_alt_def

lemma toy_GenerateKeys:
  "GenerateKeys (NewSetupKey toy_sp) 1 0 toy_ones = (Returns (toy_rg, [toy_agent]), toy_ones)"
  by (simp add: GenerateKeys_def NewSetupKey_def toy_defs eval_defs)

lemma toy_NewCiphertext:
  "NewCiphertext toy_agent ''X'' 0 toy_ones = (Returns (toy_cts ! 0), toy_ones)"
  by (simp add: NewCiphertext_def toy_defs eval_defs)

lemma toy_NewToken:
  "NewToken toy_rg [0] toy_ones = (Returns toy_token, toy_ones)"
  by (simp add: NewToken_def toy_defs eval_defs)

section \<open>\<open>NewToken\<close>\<close>






lemma NewToken_loop_not_Fails: "\<not> is_Fails (fst (NewToken_loop rg vs i r rng))"
  using NewToken_loop_char [of rg i vs r rng]
  by (cases "rules_fit rg i vs") auto

text \<open>
  Claim C6. \<open>NewToken\<close> returns an error value exactly when there are fewer
  rules than agents; the call is then \<open>ErrWrongNumberOfRules\<close> with no token
  and no scalar drawn. The rule generator is read only.
\<close>

theorem NewToken_fails_iff_too_few_rules:
  "is_Fails (fst (NewToken rg rules rng)) = (length rules < length (agents rg)) \<and>
   (NewToken rg rules rng = (Fails ErrWrongNumberOfRules, rng)) =
     (length rules < length (agents rg))"
proof -
  let ?r = "\<lparr>indices = [], g2u = [], f2u = [],
      product = g2_one (pairing (RuleGenerator.sp rg))\<rparr>"
  have nf: "\<not> is_Fails (fst (NewToken_loop rg rules 0 ?r rng))"
    by (rule NewToken_loop_not_Fails)
  have ne: "NewToken_loop rg rules 0 ?r rng \<noteq> (Fails ErrWrongNumberOfRules, rng)"
    using nf by auto
  show ?thesis using nf ne by (simp add: NewToken_def)
qed

text \<open>
  Claim C6 for one agent and no rule.
\<close>

theorem NewToken_fails_iff_too_few_rules_witness:
  "length ([] :: int32 list) < length (agents toy_rg) \<and>
   NewToken toy_rg [] toy_ones = (Fails ErrWrongNumberOfRules, toy_ones) \<and>
   is_Fails (fst (NewToken toy_rg [] toy_ones))"
  using NewToken_fails_iff_too_few_rules [of toy_rg "[]" toy_ones]
  by (simp add: toy_rg_def)

section \<open>\<open>NewCiphertext\<close>\<close>




section \<open>Wildcards\<close>

lemma Test_parts_agree:
  assumes "\<forall>v\<in>set vs. (v < length ct) = (v < length ct') \<and> (v < length ct \<longrightarrow> ct ! v = ct' ! v)"
  shows "Test_parts vs ct = Test_parts vs ct'"
  using assms by (induction vs) (auto split: outcome.splits)

lemma included_wildcard:
  "j < length vs \<Longrightarrow> vs ! j <s 0 \<Longrightarrow> i + j \<notin> set (included i vs)"
  by (auto simp add: included_def word_sless_alt word_sle_eq)

lemma NewToken_indices:
  assumes "NewToken rg rules rng = (Returns tok, rng')"
  shows "indices tok = included 0 rules"
proof -
  let ?r = "\<lparr>indices = [], g2u = [], f2u = [],
      product = g2_one (pairing (RuleGenerator.sp rg))\<rparr>"
  have l: "NewToken_loop rg rules 0 ?r rng = (Returns tok, rng')"
    using assms by (simp add: NewToken_def split: if_splits)
  show ?thesis
    using NewToken_loop_char [of rg 0 rules ?r rng] l
    by (cases "rules_fit rg 0 rules") auto
qed

text \<open>
  Claim C3. For every token that \<open>NewToken\<close> returns for rules whose position
  \<open>j\<close> is negative, \<open>j\<close> is not an included index of the token, and \<open>Test\<close>
  has the same outcome on any two ciphertext collections that agree at every
  included index: what stands at position \<open>j\<close> is never read.
\<close>

theorem Test_ignores_wildcard_positions:
  assumes "NewToken rg rules rng = (Returns tok, rng')"
    and "j < length rules" and "rules ! j <s 0"
    and "\<forall>v\<in>set (indices tok).
           (v < length ct) = (v < length ct') \<and> (v < length ct \<longrightarrow> ct ! v = ct' ! v)"
  shows "j \<notin> set (indices tok) \<and>
         Test (NewAlarmSystem p tok identifier) ct = Test (NewAlarmSystem p tok identifier) ct'"
proof -
  have "indices tok = included 0 rules" using assms(1) by (rule NewToken_indices)
  then have "j \<notin> set (indices tok)"
    using included_wildcard [OF assms(2,3), of 0] by simp
  moreover have "Test_parts (indices tok) ct = Test_parts (indices tok) ct'"
    using assms(4) by (rule Test_parts_agree)
  ultimately show ?thesis by (simp add: Test_def NewAlarmSystem_def)
qed

text \<open>
  Claim C3 for one agent and the rules \<open>[0, -1]\<close>: two collections that
  differ at position 1 both pass the test.
\<close>

theorem Test_ignores_wildcard_positions_witness:
  "NewToken toy_rg [0, - 1] toy_ones = (Returns toy_token, toy_ones) \<and>
   [0, - 1 :: int32] ! 1 <s 0 \<and> 1 \<notin> set (indices toy_token) \<and>
   Test (NewAlarmSystem toy_sp toy_token ''X'')
     (toy_cts @ [\<lparr>Ciphertext.index = 1, part1 = 5, part2 = 7\<rparr>]) =
   Test (NewAlarmSystem toy_sp toy_token ''X'')
     (toy_cts @ [\<lparr>Ciphertext.index = 1, part1 = 8, part2 = 9\<rparr>]) \<and>
   Test (NewAlarmSystem toy_sp toy_token ''X'')
     (toy_cts @ [\<lparr>Ciphertext.index = 1, part1 = 8, part2 = 9\<rparr>]) = Returns True"
proof -
  have h1: "NewToken toy_rg [0, - 1] toy_ones = (Returns toy_token, toy_ones)"
    by (simp add: NewToken_def toy_defs eval_defs)
  have h2: "1 < length [0, - 1 :: int32]" by simp
  have h3: "[0, - 1 :: int32] ! 1 <s 0" by (simp add: word_sless_alt)
  have h4: "\<forall>v\<in>set (indices toy_token).
      (v < length (toy_cts @ [\<lparr>Ciphertext.index = 1, part1 = 5, part2 = 7\<rparr>])) =
      (v < length (toy_cts @ [\<lparr>Ciphertext.index = 1, part1 = 8, part2 = 9\<rparr>])) \<and>
      (v < length (toy_cts @ [\<lparr>Ciphertext.index = 1, part1 = 5, part2 = 7\<rparr>]) \<longrightarrow>
       (toy_cts @ [\<lparr>Ciphertext.index = 1, part1 = 5, part2 = 7\<rparr>]) ! v =
       (toy_cts @ [\<lparr>Ciphertext.index = 1, part1 = 8, part2 = 9\<rparr>]) ! v)"
    by (simp add: toy_token_def toy_cts_def)
  have e: "Test (NewAlarmSystem toy_sp toy_token ''X'')
     (toy_cts @ [\<lparr>Ciphertext.index = 1, part1 = 8, part2 = 9\<rparr>]) = Returns True"
    by (simp add: Test_def NewAlarmSystem_def toy_sp_def toy_token_def toy_cts_def toy_pairing_def
      ProdPairSlice_def Let_def)
  from Test_ignores_wildcard_positions [OF h1 h2 h3 h4, of toy_sp "''X''"] h1 h3 e
  show ?thesis by simp
qed

section \<open>\<open>GenerateKeys\<close>\<close>






section \<open>Inputs beyond the bit width\<close>







section \<open>The laws of the pairing\<close>


section \<open>Correctness of the scheme\<close>















end
